theory Spec2Isabelle
  imports Main
begin

section \<open>Python values and string primitives\<close>

text \<open>
  The application (\<^verbatim>\<open>main.py\<close>) keeps users and flashcards in two CSV files and
  reads them through \<^verbatim>\<open>csv.DictReader\<close>. A Python \<^verbatim>\<open>str\<close> is modelled as a
  \<^typ>\<open>string\<close>; case folding and white space are those of the ASCII range.
  The values that occur in the row dictionaries are \<^verbatim>\<open>None\<close> (the reader's
  \<^verbatim>\<open>restval\<close> for a short row), strings, and the integers that the migration and
  \<^verbatim>\<open>row.get('id', 0)\<close> put there.
\<close>

datatype pyval = PyNone | PyStr string | PyInt int

datatype error = KeyError string | AttributeError | TypeError | ValueError

text \<open>A defaulted parameter of a Python function: the caller leaves it out or passes a value.\<close>

datatype 'a arg = Omitted | Given 'a

definition arg_or :: "'a \<Rightarrow> 'a arg \<Rightarrow> 'a" where
  "arg_or dflt a = (case a of Omitted \<Rightarrow> dflt | Given v \<Rightarrow> v)"

definition lower_char :: "char \<Rightarrow> char" where
  "lower_char c =
     (case map_of (zip ''ABCDEFGHIJKLMNOPQRSTUVWXYZ'' ''abcdefghijklmnopqrstuvwxyz'') c of
        None \<Rightarrow> c
      | Some l \<Rightarrow> l)"

text \<open>\<^verbatim>\<open>s.lower()\<close>\<close>

definition lower :: "string \<Rightarrow> string" where
  "lower s = map lower_char s"

text \<open>\<^verbatim>\<open>v.lower()\<close> on a value read from a row: only a string has the method.\<close>

definition py_lower :: "pyval \<Rightarrow> error + string" where
  "py_lower v = (case v of PyStr s \<Rightarrow> Inr (lower s) | _ \<Rightarrow> Inl AttributeError)"

definition is_space :: "char \<Rightarrow> bool" where
  "is_space c \<longleftrightarrow>
     c \<in> set [CHR 0x09, CHR 0x0A, CHR 0x0B, CHR 0x0C, CHR 0x0D,
              CHR 0x1C, CHR 0x1D, CHR 0x1E, CHR 0x1F, CHR 0x20]"

text \<open>\<^verbatim>\<open>s.strip()\<close>\<close>

definition strip :: "string \<Rightarrow> string" where
  "strip s = rev (dropWhile is_space (rev (dropWhile is_space s)))"

text \<open>\<^verbatim>\<open>m in s\<close> for two strings: \<open>m\<close> occurs in \<open>s\<close> as a contiguous run.\<close>

fun starts_with :: "string \<Rightarrow> string \<Rightarrow> bool" where
  "starts_with [] s = True"
| "starts_with (a # m) [] = False"
| "starts_with (a # m) (c # s) = (a = c \<and> starts_with m s)"

fun str_in :: "string \<Rightarrow> string \<Rightarrow> bool" where
  "str_in m [] = (m = [])"
| "str_in m (c # s) = (starts_with m (c # s) \<or> str_in m s)"

definition digit_char :: "nat \<Rightarrow> char" where
  "digit_char d = ''0123456789'' ! d"

function digits_of :: "nat \<Rightarrow> string" where
  "digits_of n = (if n < 10 then [digit_char n] else digits_of (n div 10) @ [digit_char (n mod 10)])"
  by pat_completeness auto
termination
  by (relation "measure id") auto

text \<open>\<^verbatim>\<open>str(i)\<close> for an integer.\<close>

definition str_int :: "int \<Rightarrow> string" where
  "str_int i = (if i < 0 then CHR ''-'' # digits_of (nat (- i)) else digits_of (nat i))"








section \<open>CSV files and the file system\<close>

text \<open>
  A file is held as the list of records that \<^verbatim>\<open>csv.reader\<close> yields from it, the
  header record first; \<^verbatim>\<open>csv.writer\<close> adds one record per \<^verbatim>\<open>writerow\<close>. The file
  system maps a path to the file stored there. Failures of the operating system
  (permissions, a full disk) are outside the model.
\<close>

type_synonym csv_record = "string list"
type_synonym csv_file = "csv_record list"
type_synonym filesystem = "string \<Rightarrow> csv_file option"
type_synonym row_dict = "string \<Rightarrow> pyval option"


definition FLASHCARDS_CSV :: string where
  "FLASHCARDS_CSV = ''flashcards.csv''"


definition flashcards_header :: csv_record where
  "flashcards_header =
     [''id'', ''user_email'', ''name'', ''question'', ''answer'',
      ''image_question'', ''image_answer'', ''collection'', ''created_at'']"

text \<open>What \<^verbatim>\<open>csv.writer\<close> puts in a field for a value: \<^verbatim>\<open>None\<close> is the empty field.\<close>

definition csv_str :: "pyval \<Rightarrow> string" where
  "csv_str v = (case v of PyNone \<Rightarrow> [] | PyStr s \<Rightarrow> s | PyInt i \<Rightarrow> str_int i)"

text \<open>
  The text of a record as \<^verbatim>\<open>csv.writer\<close> writes it (excel dialect, minimal quoting):
  a field holding the delimiter, a quote or a line break is quoted, with its quotes
  doubled, and so is a sole empty field.
\<close>

definition csv_field :: "string \<Rightarrow> string" where
  "csv_field s =
     (if \<exists>c \<in> set s. c \<in> set [CHR '','', CHR 0x22, CHR 0x0D, CHR 0x0A]
      then [CHR 0x22] @ concat (map (\<lambda>c. if c = CHR 0x22 then [c, c] else [c]) s) @ [CHR 0x22]
      else s)"

fun join_fields :: "string list \<Rightarrow> string" where
  "join_fields [] = []"
| "join_fields [f] = f"
| "join_fields (f # g # fs) = f @ '','' @ join_fields (g # fs)"

definition csv_line :: "csv_record \<Rightarrow> string" where
  "csv_line r = (if r = [[]] then [CHR 0x22, CHR 0x22] else join_fields (map csv_field r))"

text \<open>
  \<^verbatim>\<open>file.readline().strip()\<close> on a freshly opened file: the text up to the first line
  break, without the white space around it.
\<close>

definition first_line :: "csv_file \<Rightarrow> string" where
  "first_line f =
     (case f of
        [] \<Rightarrow> []
      | h # _ \<Rightarrow> strip (takeWhile (\<lambda>c. c \<noteq> CHR 0x0D \<and> c \<noteq> CHR 0x0A) (csv_line h)))"

text \<open>\<^verbatim>\<open>dict(pairs)\<close>: a later pair replaces an earlier one with the same key.\<close>

definition dict_of :: "(string \<times> pyval) list \<Rightarrow> row_dict" where
  "dict_of pairs = fold (\<lambda>(k, v) d. d(k \<mapsto> v)) pairs Map.empty"

text \<open>
  One row of \<^verbatim>\<open>csv.DictReader\<close>: the field names zipped with the record; a short
  record is filled with \<^verbatim>\<open>None\<close>. The surplus of a long record goes to the key
  \<^verbatim>\<open>None\<close>, which the application never reads.
\<close>

definition dict_row :: "csv_record \<Rightarrow> csv_record \<Rightarrow> row_dict" where
  "dict_row fieldnames r =
     dict_of (zip fieldnames (map PyStr r @ replicate (length fieldnames - length r) PyNone))"

text \<open>
  \<^verbatim>\<open>csv.DictReader(file)\<close>, iterated to the end: the first record gives the field
  names, blank records are skipped.
\<close>

definition DictReader :: "csv_file \<Rightarrow> row_dict list" where
  "DictReader f =
     (case f of
        [] \<Rightarrow> []
      | fieldnames # records \<Rightarrow> map (dict_row fieldnames) (filter (\<lambda>r. r \<noteq> []) records))"

text \<open>\<^verbatim>\<open>row[k]\<close> and \<^verbatim>\<open>row.get(k, dflt)\<close>\<close>

definition getitem :: "row_dict \<Rightarrow> string \<Rightarrow> error + pyval" where
  "getitem row k = (case row k of None \<Rightarrow> Inl (KeyError k) | Some v \<Rightarrow> Inr v)"

definition get_or :: "row_dict \<Rightarrow> string \<Rightarrow> pyval \<Rightarrow> pyval" where
  "get_or row k dflt = (case row k of None \<Rightarrow> dflt | Some v \<Rightarrow> v)"

text \<open>
  The fields of a \<^verbatim>\<open>writerow([...])\<close> call are evaluated from left to right; the first
  one that raises ends the call.
\<close>

fun eval_fields :: "(error + pyval) list \<Rightarrow> error + csv_record" where
  "eval_fields [] = Inr []"
| "eval_fields (Inl e # fs) = Inl e"
| "eval_fields (Inr v # fs) =
     (case eval_fields fs of Inl e \<Rightarrow> Inl e | Inr r \<Rightarrow> Inr (csv_str v # r))"

text \<open>
  \<^verbatim>\<open>for card in cards: writer.writerow(...)\<close>: the records written, and the exception
  that stopped the loop, if any. What was written before stays in the file.
\<close>

fun write_rows :: "(row_dict \<Rightarrow> error + csv_record) \<Rightarrow> row_dict list \<Rightarrow> csv_record list \<times> error option" where
  "write_rows to_record [] = ([], None)"
| "write_rows to_record (c # cards) =
     (case to_record c of
        Inl e \<Rightarrow> ([], Some e)
      | Inr r \<Rightarrow> (case write_rows to_record cards of (rs, err) \<Rightarrow> (r # rs, err)))"

section \<open>Initialisation and migration\<close>



text \<open>
  The loop of \<^verbatim>\<open>migrate_flashcards_csv\<close> over \<^verbatim>\<open>enumerate(reader, 1)\<close>: \<open>i\<close> is the
  running index.
\<close>

fun migrate_rows :: "int \<Rightarrow> row_dict list \<Rightarrow> error + row_dict list" where
  "migrate_rows i [] = Inr []"
| "migrate_rows i (row # rows) =
     (case getitem row ''user_email'' of Inl e \<Rightarrow> Inl e | Inr user_email \<Rightarrow>
     (case getitem row ''question'' of Inl e \<Rightarrow> Inl e | Inr question \<Rightarrow>
     (case getitem row ''answer'' of Inl e \<Rightarrow> Inl e | Inr answer \<Rightarrow>
     (case getitem row ''created_at'' of Inl e \<Rightarrow> Inl e | Inr created_at \<Rightarrow>
     (case migrate_rows (i + 1) rows of Inl e \<Rightarrow> Inl e | Inr cards \<Rightarrow>
        Inr (dict_of
              [(''id'', PyInt i),
               (''user_email'', user_email),
               (''name'', get_or row ''name'' (PyStr [])),
               (''question'', question),
               (''answer'', answer),
               (''image_question'', get_or row ''image_question'' (PyStr [])),
               (''image_answer'', get_or row ''image_answer'' (PyStr [])),
               (''collection'', get_or row ''collection'' (PyStr [])),
               (''created_at'', created_at)] # cards))))))"

definition migrated_record :: "row_dict \<Rightarrow> error + csv_record" where
  "migrated_record c =
     eval_fields
       [getitem c ''id'', getitem c ''user_email'', getitem c ''name'',
        getitem c ''question'', getitem c ''answer'', getitem c ''image_question'',
        getitem c ''image_answer'', getitem c ''collection'', getitem c ''created_at'']"

text \<open>
  The test that \<^verbatim>\<open>migrate_flashcards_csv\<close> makes on the first line of the file:
  the four column names are looked for as substrings.
\<close>

definition has_new_columns :: "string \<Rightarrow> bool" where
  "has_new_columns line \<longleftrightarrow>
     str_in ''id'' line \<and> str_in ''collection'' line \<and> str_in ''name'' line
     \<and> str_in ''image_question'' line"

text \<open>The path of the backup; \<open>now\<close> is \<^verbatim>\<open>int(time.time())\<close>.\<close>

definition backup_file :: "int \<Rightarrow> filesystem \<Rightarrow> string" where
  "backup_file now fs =
     (if fs (FLASHCARDS_CSV @ ''.backup'') \<noteq> None
      then FLASHCARDS_CSV @ ''.backup.'' @ str_int now
      else FLASHCARDS_CSV @ ''.backup'')"

text \<open>
  \<^verbatim>\<open>migrate_flashcards_csv()\<close>. \<^verbatim>\<open>os.rename\<close> moves the file to the backup path,
  replacing what is there. An exception in the reading loop leaves the file system as
  it is after the rename.
\<close>

definition migrate_flashcards_csv :: "int \<Rightarrow> filesystem \<Rightarrow> (error + unit) \<times> filesystem" where
  "migrate_flashcards_csv now fs =
     (case fs FLASHCARDS_CSV of
        None \<Rightarrow> (Inr (), fs)
      | Some old \<Rightarrow>
          if has_new_columns (first_line old) then (Inr (), fs)
          else
            let renamed = (fs(FLASHCARDS_CSV := None))(backup_file now fs \<mapsto> old)
            in (case migrate_rows 1 (DictReader old) of
                  Inl e \<Rightarrow> (Inl e, renamed)
                | Inr migrated_cards \<Rightarrow>
                    (case write_rows migrated_record migrated_cards of
                       (written, err) \<Rightarrow>
                         ((case err of None \<Rightarrow> Inr () | Some e \<Rightarrow> Inl e),
                          renamed(FLASHCARDS_CSV \<mapsto> flashcards_header # written)))))"

section \<open>User management\<close>




section \<open>Flashcard management\<close>




text \<open>
  \<^verbatim>\<open>row['id'] == str(card_id) and row['user_email'].lower() == user_email.lower()\<close>:
  the right operand is evaluated only when the left one holds.
\<close>

definition id_owner_match :: "int \<Rightarrow> string \<Rightarrow> row_dict \<Rightarrow> error + bool" where
  "id_owner_match card_id user_email row =
     (case getitem row ''id'' of Inl e \<Rightarrow> Inl e | Inr i \<Rightarrow>
        if i = PyStr (str_int card_id)
        then (case getitem row ''user_email'' of Inl e \<Rightarrow> Inl e | Inr u \<Rightarrow>
             (case py_lower u of Inl e \<Rightarrow> Inl e | Inr l \<Rightarrow> Inr (l = lower user_email)))
        else Inr False)"

text \<open>
  \<^verbatim>\<open>row['collection'] == collection_name and row['user_email'].lower() == user_email.lower()\<close>
\<close>

definition collection_owner_match :: "string \<Rightarrow> string \<Rightarrow> row_dict \<Rightarrow> error + bool" where
  "collection_owner_match collection_name user_email row =
     (case getitem row ''collection'' of Inl e \<Rightarrow> Inl e | Inr c \<Rightarrow>
        if c = PyStr collection_name
        then (case getitem row ''user_email'' of Inl e \<Rightarrow> Inl e | Inr u \<Rightarrow>
             (case py_lower u of Inl e \<Rightarrow> Inl e | Inr l \<Rightarrow> Inr (l = lower user_email)))
        else Inr False)"

text \<open>
  The record that \<^verbatim>\<open>update_flashcard\<close>, \<^verbatim>\<open>delete_flashcard\<close> and
  \<^verbatim>\<open>delete_collection\<close> write for a row, and their common writing block: the file is
  opened for writing (and so emptied), the header goes first, then the rows.
\<close>

definition card_record :: "row_dict \<Rightarrow> error + csv_record" where
  "card_record c =
     eval_fields
       [getitem c ''id'', getitem c ''user_email'', Inr (get_or c ''name'' (PyStr [])),
        getitem c ''question'', getitem c ''answer'',
        Inr (get_or c ''image_question'' (PyStr [])), Inr (get_or c ''image_answer'' (PyStr [])),
        Inr (get_or c ''collection'' (PyStr [])), getitem c ''created_at'']"

definition write_flashcards :: "row_dict list \<Rightarrow> filesystem \<Rightarrow> (error + bool) \<times> filesystem" where
  "write_flashcards flashcards fs =
     (case write_rows card_record flashcards of
        (written, err) \<Rightarrow>
          ((case err of None \<Rightarrow> Inr True | Some e \<Rightarrow> Inl e),
           fs(FLASHCARDS_CSV \<mapsto> flashcards_header # written)))"

text \<open>The assignments of \<^verbatim>\<open>update_flashcard\<close> to the row it has found.\<close>

definition update_row ::
  "string \<Rightarrow> string \<Rightarrow> string \<Rightarrow> string \<Rightarrow> string option \<Rightarrow> string option \<Rightarrow> row_dict \<Rightarrow> row_dict" where
  "update_row name question answer collection image_question image_answer row =
     (let row1 = row(''name'' \<mapsto> PyStr name, ''question'' \<mapsto> PyStr question,
                     ''answer'' \<mapsto> PyStr answer, ''collection'' \<mapsto> PyStr collection);
          row2 = (case image_question of None \<Rightarrow> row1 | Some img \<Rightarrow> row1(''image_question'' \<mapsto> PyStr img))
      in (case image_answer of None \<Rightarrow> row2 | Some img \<Rightarrow> row2(''image_answer'' \<mapsto> PyStr img)))"

text \<open>The reading loop of \<^verbatim>\<open>update_flashcard\<close>.\<close>

fun update_loop :: "(row_dict \<Rightarrow> error + bool) \<Rightarrow> (row_dict \<Rightarrow> row_dict) \<Rightarrow> row_dict list \<Rightarrow> error + row_dict list" where
  "update_loop found change [] = Inr []"
| "update_loop found change (row # rows) =
     (case found row of Inl e \<Rightarrow> Inl e | Inr b \<Rightarrow>
     (case update_loop found change rows of Inl e \<Rightarrow> Inl e | Inr flashcards \<Rightarrow>
        Inr ((if b then change row else row) # flashcards)))"

text \<open>
  \<^verbatim>\<open>update_flashcard\<close>. The last three parameters have the default \<^verbatim>\<open>''\<close>; an image
  argument is a string or \<^verbatim>\<open>None\<close>. An exception in the reading loop leaves the file
  as it was.
\<close>

definition update_flashcard ::
  "int \<Rightarrow> string \<Rightarrow> string \<Rightarrow> string \<Rightarrow> string \<Rightarrow> string arg \<Rightarrow> string option arg \<Rightarrow> string option arg
     \<Rightarrow> filesystem \<Rightarrow> (error + bool) \<times> filesystem" where
  "update_flashcard card_id user_email name question answer collection image_question image_answer fs =
     (case fs FLASHCARDS_CSV of
        None \<Rightarrow> (Inr False, fs)
      | Some f \<Rightarrow>
          (case update_loop (id_owner_match card_id user_email)
                  (update_row name question answer (arg_or [] collection)
                     (arg_or (Some []) image_question) (arg_or (Some []) image_answer))
                  (DictReader f) of
             Inl e \<Rightarrow> (Inl e, fs)
           | Inr flashcards \<Rightarrow> write_flashcards flashcards fs))"

text \<open>
  The reading loop of \<^verbatim>\<open>delete_flashcard\<close> and of \<^verbatim>\<open>delete_collection\<close>: a row is
  kept unless the condition holds for it.
\<close>

fun keep_loop :: "(row_dict \<Rightarrow> error + bool) \<Rightarrow> row_dict list \<Rightarrow> error + row_dict list" where
  "keep_loop matches [] = Inr []"
| "keep_loop matches (row # rows) =
     (case matches row of Inl e \<Rightarrow> Inl e | Inr b \<Rightarrow>
     (case keep_loop matches rows of Inl e \<Rightarrow> Inl e | Inr flashcards \<Rightarrow>
        Inr (if b then flashcards else row # flashcards)))"

definition delete_flashcard :: "int \<Rightarrow> string \<Rightarrow> filesystem \<Rightarrow> (error + bool) \<times> filesystem" where
  "delete_flashcard card_id user_email fs =
     (case fs FLASHCARDS_CSV of
        None \<Rightarrow> (Inr False, fs)
      | Some f \<Rightarrow>
          (case keep_loop (id_owner_match card_id user_email) (DictReader f) of
             Inl e \<Rightarrow> (Inl e, fs)
           | Inr flashcards \<Rightarrow> write_flashcards flashcards fs))"

definition delete_collection :: "string \<Rightarrow> string \<Rightarrow> filesystem \<Rightarrow> (error + bool) \<times> filesystem" where
  "delete_collection collection_name user_email fs =
     (case fs FLASHCARDS_CSV of
        None \<Rightarrow> (Inr False, fs)
      | Some f \<Rightarrow>
          (case keep_loop (collection_owner_match collection_name user_email) (DictReader f) of
             Inl e \<Rightarrow> (Inl e, fs)
           | Inr flashcards \<Rightarrow> write_flashcards flashcards fs))"

text \<open>
  The dictionary that \<^verbatim>\<open>get_flashcard_by_id\<close> returns, as its items in order, and the
  loop that looks for the row. The function only reads the file.
\<close>

definition card_dict :: "row_dict \<Rightarrow> error + (string \<times> pyval) list" where
  "card_dict row =
     (case getitem row ''id'' of Inl e \<Rightarrow> Inl e | Inr i \<Rightarrow>
     (case getitem row ''question'' of Inl e \<Rightarrow> Inl e | Inr question \<Rightarrow>
     (case getitem row ''answer'' of Inl e \<Rightarrow> Inl e | Inr answer \<Rightarrow>
     (case getitem row ''created_at'' of Inl e \<Rightarrow> Inl e | Inr created_at \<Rightarrow>
        Inr [(''id'', i),
             (''name'', get_or row ''name'' (PyStr [])),
             (''question'', question),
             (''answer'', answer),
             (''image_question'', get_or row ''image_question'' (PyStr [])),
             (''image_answer'', get_or row ''image_answer'' (PyStr [])),
             (''collection'', get_or row ''collection'' (PyStr [])),
             (''created_at'', created_at)]))))"

fun find_card :: "int \<Rightarrow> string \<Rightarrow> row_dict list \<Rightarrow> error + (string \<times> pyval) list option" where
  "find_card card_id user_email [] = Inr None"
| "find_card card_id user_email (row # rows) =
     (case id_owner_match card_id user_email row of
        Inl e \<Rightarrow> Inl e
      | Inr True \<Rightarrow> (case card_dict row of Inl e \<Rightarrow> Inl e | Inr d \<Rightarrow> Inr (Some d))
      | Inr False \<Rightarrow> find_card card_id user_email rows)"

definition get_flashcard_by_id :: "int \<Rightarrow> string \<Rightarrow> filesystem \<Rightarrow> error + (string \<times> pyval) list option" where
  "get_flashcard_by_id card_id user_email fs =
     (case fs FLASHCARDS_CSV of
        None \<Rightarrow> Inr None
      | Some f \<Rightarrow> find_card card_id user_email (DictReader f))"

section \<open>Registration\<close>

text \<open>
  What a route handler answers: the message it flashes, with its category, and the page
  it renders or redirects to.
\<close>

datatype page = Render string | Redirect string

record response =
  flash_message :: string
  flash_category :: string
  answer_page :: page





definition created_msg :: string where
  "created_msg = ''Account created successfully! You can now log in.''"


definition created :: response where
  "created = \<lparr>flash_message = created_msg, flash_category = ''success'', answer_page = Redirect ''login''\<rparr>"


section \<open>Example tables\<close>

definition card1 :: csv_record where
  "card1 = [''1'', ''a@x.com'', ''Sum'', ''2+2?'', ''4'', ''IMGQ'', ''IMGA'', ''Math'', ''2024-01-01 10:00:00'']"

definition card2 :: csv_record where
  "card2 = [''2'', ''b@x.com'', ''Product'', ''2*3?'', ''6'', [], [], ''Math'', ''2024-01-02 10:00:00'']"

definition card5 :: csv_record where
  "card5 = [''5'', ''a@x.com'', ''Area'', ''r=1?'', ''pi'', [], [], ''Geometry'', ''2024-01-03 10:00:00'']"

definition example_rows :: "csv_record list" where
  "example_rows = [card1, card2, card5]"

definition example_fs :: filesystem where
  "example_fs = Map.empty(FLASHCARDS_CSV \<mapsto> flashcards_header # example_rows)"

text \<open>
  Two legacy files: the first format, without the new columns, and the format that has
  ids, names and collections but no images, after its card 2 was deleted.
\<close>

definition legacy_file :: csv_file where
  "legacy_file =
     [[''user_email'', ''question'', ''answer'', ''created_at''],
      [''a@x.com'', ''2+2?'', ''4'', ''2023-01-01 10:00:00''],
      [''b@x.com'', ''2*3?'', ''6'', ''2023-01-02 10:00:00''],
      [''a@x.com'', ''r=1?'', ''pi'', ''2023-01-03 10:00:00'']]"

definition legacy_file_with_ids :: csv_file where
  "legacy_file_with_ids =
     [[''id'', ''user_email'', ''name'', ''question'', ''answer'', ''collection'', ''created_at''],
      [''1'', ''a@x.com'', ''Sum'', ''2+2?'', ''4'', ''Math'', ''2023-01-01 10:00:00''],
      [''3'', ''a@x.com'', ''Area'', ''r=1?'', ''pi'', ''Geometry'', ''2023-01-03 10:00:00'']]"

definition legacy_fs :: filesystem where
  "legacy_fs = Map.empty(FLASHCARDS_CSV \<mapsto> legacy_file)"

definition legacy_fs_with_ids :: filesystem where
  "legacy_fs_with_ids = Map.empty(FLASHCARDS_CSV \<mapsto> legacy_file_with_ids)"


section \<open>Rows of a table under the current header\<close>

lemma length9E:
  assumes "length (r :: 'a list) = 9"
  obtains i u n q a iq ia c t where "r = [i, u, n, q, a, iq, ia, c, t]"
proof -
  from assms obtain i r1 where "r = i # r1" "length r1 = 8" by (cases r) auto
  moreover then obtain u r2 where "r1 = u # r2" "length r2 = 7" by (cases r1) auto
  moreover then obtain n r3 where "r2 = n # r3" "length r3 = 6" by (cases r2) auto
  moreover then obtain q r4 where "r3 = q # r4" "length r4 = 5" by (cases r3) auto
  moreover then obtain a r5 where "r4 = a # r5" "length r5 = 4" by (cases r4) auto
  moreover then obtain iq r6 where "r5 = iq # r6" "length r6 = 3" by (cases r5) auto
  moreover then obtain ia r7 where "r6 = ia # r7" "length r7 = 2" by (cases r6) auto
  moreover then obtain c r8 where "r7 = c # r8" "length r8 = 1" by (cases r7) auto
  moreover then obtain t where "r8 = [t]" by (cases r8) auto
  ultimately show ?thesis using that by simp
qed

lemma dict_row_full:
  "dict_row flashcards_header [i, u, n, q, a, iq, ia, c, t] =
     [''id'' \<mapsto> PyStr i, ''user_email'' \<mapsto> PyStr u, ''name'' \<mapsto> PyStr n,
      ''question'' \<mapsto> PyStr q, ''answer'' \<mapsto> PyStr a, ''image_question'' \<mapsto> PyStr iq,
      ''image_answer'' \<mapsto> PyStr ia, ''collection'' \<mapsto> PyStr c, ''created_at'' \<mapsto> PyStr t]"
  by (simp add: dict_row_def dict_of_def flashcards_header_def)

lemma card_record_full:
  "length r = 9 \<Longrightarrow> card_record (dict_row flashcards_header r) = Inr r"
  by (erule length9E) (simp add: dict_row_full card_record_def getitem_def get_or_def csv_str_def)

lemma id_owner_match_full:
  "length r = 9 \<Longrightarrow>
   id_owner_match card_id user_email (dict_row flashcards_header r) =
     Inr (r ! 0 = str_int card_id \<and> lower (r ! 1) = lower user_email)"
  by (erule length9E) (simp add: dict_row_full id_owner_match_def getitem_def py_lower_def)


lemma DictReader_full:
  assumes "\<forall>r \<in> set rows. length r = 9"
  shows "DictReader (flashcards_header # rows) = map (dict_row flashcards_header) rows"
proof -
  from assms have "filter (\<lambda>r. r \<noteq> []) rows = rows"
    by (induction rows) auto
  then show ?thesis by (simp add: DictReader_def)
qed

lemma keep_loop_map:
  "\<forall>r \<in> set rows. matches (f r) = Inr (p r) \<Longrightarrow>
   keep_loop matches (map f rows) = Inr (map f (filter (\<lambda>r. \<not> p r) rows))"
  by (induction rows) auto

lemma write_rows_map:
  "\<forall>r \<in> set rows. to_record (f r) = Inr r \<Longrightarrow>
   write_rows to_record (map f rows) = (rows, None)"
  by (induction rows) auto

lemma write_flashcards_full:
  "\<forall>r \<in> set rows. length r = 9 \<Longrightarrow>
   write_flashcards (map (dict_row flashcards_header) rows) fs =
     (Inr True, fs(FLASHCARDS_CSV \<mapsto> flashcards_header # rows))"
  by (simp add: write_flashcards_def write_rows_map card_record_full)

section \<open>Deleting a collection\<close>



section \<open>A missing flashcards file\<close>

text \<open>
  Claim C10. When there is no flashcards file, \<^verbatim>\<open>update_flashcard\<close>,
  \<^verbatim>\<open>delete_flashcard\<close> and \<^verbatim>\<open>delete_collection\<close> return \<^verbatim>\<open>False\<close> and hand back
  the file system as it was, so no file is created; \<^verbatim>\<open>get_flashcard_by_id\<close>, which
  only reads, returns \<^verbatim>\<open>None\<close>.
\<close>

theorem missing_file_is_refused:
  assumes "fs FLASHCARDS_CSV = None"
  shows "update_flashcard card_id user_email name question answer collection image_question image_answer fs
           = (Inr False, fs)
       \<and> delete_flashcard card_id user_email fs = (Inr False, fs)
       \<and> delete_collection collection_name user_email fs = (Inr False, fs)
       \<and> get_flashcard_by_id card_id user_email fs = Inr None"
  using assms
  by (simp add: update_flashcard_def delete_flashcard_def delete_collection_def get_flashcard_by_id_def)

theorem missing_file_is_refused_witness:
  "(Map.empty :: filesystem) FLASHCARDS_CSV = None
   \<and> update_flashcard 1 ''a@x.com'' ''Sum'' ''2+2?'' ''4'' Omitted Omitted Omitted Map.empty
       = (Inr False, Map.empty)
   \<and> delete_flashcard 1 ''a@x.com'' Map.empty = (Inr False, Map.empty)
   \<and> delete_collection ''Math'' ''a@x.com'' Map.empty = (Inr False, Map.empty)
   \<and> get_flashcard_by_id 1 ''a@x.com'' Map.empty = Inr None"
  using missing_file_is_refused [of Map.empty 1 "''a@x.com''" "''Sum''" "''2+2?''" "''4''"
      Omitted Omitted Omitted "''Math''"]
  by simp

section \<open>Looking a card up\<close>






section \<open>Updating and deleting a card\<close>

lemma update_loop_map:
  "\<forall>r \<in> set rows. found (f r) = Inr (p r) \<Longrightarrow>
   update_loop found change (map f rows) = Inr (map (\<lambda>r. if p r then change (f r) else f r) rows)"
  by (induction rows) auto

lemma write_rows_map_gen:
  "\<forall>r \<in> set rows. to_record (f r) = Inr (g r) \<Longrightarrow>
   write_rows to_record (map f rows) = (map g rows, None)"
  by (induction rows) auto

lemma card_record_update_row:
  "length r = 9 \<Longrightarrow>
   card_record (update_row name question answer collection image_question image_answer
                  (dict_row flashcards_header r)) =
     Inr [r ! 0, r ! 1, name, question, answer,
          (case image_question of None \<Rightarrow> r ! 5 | Some img \<Rightarrow> img),
          (case image_answer of None \<Rightarrow> r ! 6 | Some img \<Rightarrow> img),
          collection, r ! 8]"
  by (erule length9E; cases image_question; cases image_answer)
     (simp_all add: dict_row_full card_record_def update_row_def Let_def getitem_def get_or_def
        csv_str_def)

lemma update_flashcard_full:
  assumes "fs FLASHCARDS_CSV = Some (flashcards_header # rows)"
    and "\<forall>r \<in> set rows. length r = 9"
  shows "update_flashcard card_id user_email name question answer collection image_question image_answer fs =
           (Inr True,
            fs(FLASHCARDS_CSV \<mapsto> flashcards_header #
                 map (\<lambda>r. if r ! 0 = str_int card_id \<and> lower (r ! 1) = lower user_email
                           then [r ! 0, r ! 1, name, question, answer,
                                 (case arg_or (Some []) image_question of None \<Rightarrow> r ! 5 | Some img \<Rightarrow> img),
                                 (case arg_or (Some []) image_answer of None \<Rightarrow> r ! 6 | Some img \<Rightarrow> img),
                                 arg_or [] collection, r ! 8]
                           else r) rows))"
proof -
  let ?p = "\<lambda>r. r ! 0 = str_int card_id \<and> lower (r ! 1) = lower user_email"
  let ?change = "update_row name question answer (arg_or [] collection)
                   (arg_or (Some []) image_question) (arg_or (Some []) image_answer)"
  let ?f = "dict_row flashcards_header"
  let ?g = "\<lambda>r. if ?p r
                 then [r ! 0, r ! 1, name, question, answer,
                       (case arg_or (Some []) image_question of None \<Rightarrow> r ! 5 | Some img \<Rightarrow> img),
                       (case arg_or (Some []) image_answer of None \<Rightarrow> r ! 6 | Some img \<Rightarrow> img),
                       arg_or [] collection, r ! 8]
                 else r"
  have read: "update_loop (id_owner_match card_id user_email) ?change (map ?f rows) =
                Inr (map (\<lambda>r. if ?p r then ?change (?f r) else ?f r) rows)"
    using assms(2) by (intro update_loop_map) (simp add: id_owner_match_full)
  have "\<forall>r \<in> set rows. card_record (if ?p r then ?change (?f r) else ?f r) = Inr (?g r)"
    using assms(2) by (simp add: card_record_update_row card_record_full)
  then have "write_rows card_record (map (\<lambda>r. if ?p r then ?change (?f r) else ?f r) rows)
               = (map ?g rows, None)"
    by (rule write_rows_map_gen)
  then show ?thesis
    using assms read
    by (simp add: update_flashcard_def DictReader_full write_flashcards_def)
qed

lemma delete_flashcard_full:
  assumes "fs FLASHCARDS_CSV = Some (flashcards_header # rows)"
    and "\<forall>r \<in> set rows. length r = 9"
  shows "delete_flashcard card_id user_email fs =
           (Inr True,
            fs(FLASHCARDS_CSV \<mapsto> flashcards_header #
                 filter (\<lambda>r. \<not> (r ! 0 = str_int card_id \<and> lower (r ! 1) = lower user_email)) rows))"
proof -
  let ?p = "\<lambda>r. r ! 0 = str_int card_id \<and> lower (r ! 1) = lower user_email"
  have kept: "keep_loop (id_owner_match card_id user_email) (map (dict_row flashcards_header) rows) =
              Inr (map (dict_row flashcards_header) (filter (\<lambda>r. \<not> ?p r) rows))"
    using assms(2) by (intro keep_loop_map) (simp add: id_owner_match_full)
  have "\<forall>r \<in> set (filter (\<lambda>r. \<not> ?p r) rows). length r = 9"
    using assms(2) by simp
  then show ?thesis
    using assms kept
    by (simp add: delete_flashcard_def DictReader_full write_flashcards_full)
qed

lemma example_rows_full: "\<forall>r \<in> set example_rows. length r = 9"
  by (simp add: example_rows_def card1_def card2_def card5_def)

lemma example_fs_file: "example_fs FLASHCARDS_CSV = Some (flashcards_header # example_rows)"
  by (simp add: example_fs_def)

lemma example_fs_same: "example_fs(FLASHCARDS_CSV \<mapsto> flashcards_header # example_rows) = example_fs"
  by (simp add: example_fs_def)

lemma no_card2_for_a: "get_flashcard_by_id 2 ''a@x.com'' example_fs = Inr None"
  by (simp add: get_flashcard_by_id_def example_fs_file DictReader_full example_rows_full)
     (simp add: example_rows_def id_owner_match_full card1_def card2_def card5_def
        str_int_def digit_char_def lower_def lower_char_def)

text \<open>
  Claim C1, evaluated on the example table. Card 1 of \<^verbatim>\<open>a@x.com\<close> holds the images
  \<^verbatim>\<open>IMGQ\<close> and \<^verbatim>\<open>IMGA\<close>. A call of \<^verbatim>\<open>update_flashcard\<close> that leaves both image
  arguments out rewrites the name, question, answer and collection of the row and
  empties both images: the default of the parameters is the empty string, which is
  not \<^verbatim>\<open>None\<close>.
\<close>

theorem update_flashcard_omitted_image_clears:
  "update_flashcard 1 ''a@x.com'' ''Sum'' ''2+2?'' ''4'' (Given ''Math'') Omitted Omitted example_fs =
     (Inr True,
      example_fs(FLASHCARDS_CSV \<mapsto>
        [flashcards_header,
         [''1'', ''a@x.com'', ''Sum'', ''2+2?'', ''4'', [], [], ''Math'', ''2024-01-01 10:00:00''],
         card2, card5]))
   \<and> card1 ! 5 = ''IMGQ'' \<and> card1 ! 6 = ''IMGA''"
  using update_flashcard_full [where fs = example_fs and rows = example_rows and card_id = 1
      and user_email = "''a@x.com''" and name = "''Sum''" and question = "''2+2?''"
      and answer = "''4''" and collection = "Given ''Math''" and image_question = Omitted
      and image_answer = Omitted]
    example_fs_file example_rows_full
  by (simp add: example_rows_def card1_def card2_def card5_def arg_or_def
      str_int_def digit_char_def lower_def lower_char_def)

text \<open>
  Claim C8, evaluated on the example table. Card 2 belongs to \<^verbatim>\<open>b@x.com\<close>, so no row
  matches the id 2 with the owner \<^verbatim>\<open>a@x.com\<close>; \<^verbatim>\<open>update_flashcard\<close> leaves the table
  as it was and returns \<^verbatim>\<open>True\<close>.
\<close>

theorem update_flashcard_true_without_match:
  "update_flashcard 2 ''a@x.com'' ''Sum'' ''2+2?'' ''4'' (Given ''Math'') (Given None) (Given None) example_fs
     = (Inr True, example_fs)
   \<and> get_flashcard_by_id 2 ''a@x.com'' example_fs = Inr None"
  using update_flashcard_full [where fs = example_fs and rows = example_rows and card_id = 2
      and user_email = "''a@x.com''" and name = "''Sum''" and question = "''2+2?''"
      and answer = "''4''" and collection = "Given ''Math''" and image_question = "Given None"
      and image_answer = "Given None"]
    example_fs_file example_rows_full no_card2_for_a
  by (simp add: example_fs_def example_rows_def card1_def card2_def card5_def arg_or_def
      str_int_def digit_char_def lower_def lower_char_def)

text \<open>
  Claim C9, evaluated on the example table. No row matches the id 2 with the owner
  \<^verbatim>\<open>a@x.com\<close>; \<^verbatim>\<open>delete_flashcard\<close> leaves the table as it was and returns
  \<^verbatim>\<open>True\<close>.
\<close>

theorem delete_flashcard_true_without_match:
  "delete_flashcard 2 ''a@x.com'' example_fs = (Inr True, example_fs)
   \<and> get_flashcard_by_id 2 ''a@x.com'' example_fs = Inr None"
  using delete_flashcard_full [where fs = example_fs and rows = example_rows and card_id = 2
      and user_email = "''a@x.com''"]
    example_fs_file example_rows_full no_card2_for_a
  by (simp add: example_fs_def example_rows_def card1_def card2_def card5_def
      str_int_def digit_char_def lower_def lower_char_def)

section \<open>Migration of a legacy file\<close>

lemma first_line_header:
  "first_line (flashcards_header # written) =
     ''id,user_email,name,question,answer,image_question,image_answer,collection,created_at''"
  by (simp add: first_line_def csv_line_def csv_field_def flashcards_header_def strip_def is_space_def)

lemma has_new_columns_header: "has_new_columns (first_line (flashcards_header # written))"
  unfolding first_line_header has_new_columns_def by simp

lemma migrate_noop:
  assumes "fs FLASHCARDS_CSV = None \<or> (\<exists>f. fs FLASHCARDS_CSV = Some f \<and> has_new_columns (first_line f))"
  shows "migrate_flashcards_csv now fs = (Inr (), fs)"
  using assms by (auto simp add: migrate_flashcards_csv_def)

lemma backup_file_other:
  "backup_file now fs \<noteq> FLASHCARDS_CSV" "FLASHCARDS_CSV \<noteq> backup_file now fs"
  by (simp_all add: backup_file_def)

lemma migrate_result_file:
  "snd (migrate_flashcards_csv now fs) FLASHCARDS_CSV = None
   \<or> (\<exists>f. snd (migrate_flashcards_csv now fs) FLASHCARDS_CSV = Some f \<and> has_new_columns (first_line f))"
proof (cases "fs FLASHCARDS_CSV")
  case None
  then show ?thesis by (simp add: migrate_flashcards_csv_def)
next
  case (Some old)
  show ?thesis
  proof (cases "has_new_columns (first_line old)")
    case True
    with Some show ?thesis by (simp add: migrate_flashcards_csv_def)
  next
    case False
    show ?thesis
    proof (cases "migrate_rows 1 (DictReader old)")
      case (Inl e)
      with Some False show ?thesis
        by (simp add: migrate_flashcards_csv_def Let_def backup_file_other)
    next
      case (Inr cards)
      with Some False show ?thesis
        by (simp add: migrate_flashcards_csv_def Let_def has_new_columns_header split: prod.splits)
    qed
  qed
qed

text \<open>
  Claim C3. When the first line of the flashcards file holds the four column names
  \<^verbatim>\<open>id\<close>, \<^verbatim>\<open>collection\<close>, \<^verbatim>\<open>name\<close> and \<^verbatim>\<open>image_question\<close>, the migration returns
  at once and the file system is what it was. Running the migration a second time,
  whatever the first run found, changes nothing: the file stays as the first run left
  it and no further backup appears.
\<close>

theorem migrate_idempotent:
  "(fs FLASHCARDS_CSV = Some f \<and> has_new_columns (first_line f)
      \<longrightarrow> migrate_flashcards_csv now fs = (Inr (), fs))
   \<and> migrate_flashcards_csv later (snd (migrate_flashcards_csv now fs))
       = (Inr (), snd (migrate_flashcards_csv now fs))"
  using migrate_result_file [of now fs]
  by (auto simp add: migrate_noop)

theorem migrate_idempotent_witness:
  "example_fs FLASHCARDS_CSV = Some (flashcards_header # example_rows)
   \<and> has_new_columns (first_line (flashcards_header # example_rows))
   \<and> migrate_flashcards_csv 1700000000 example_fs = (Inr (), example_fs)
   \<and> migrate_flashcards_csv 1700000060 (snd (migrate_flashcards_csv 1700000000 legacy_fs))
       = (Inr (), snd (migrate_flashcards_csv 1700000000 legacy_fs))"
  using migrate_idempotent [where fs = example_fs and f = "flashcards_header # example_rows"
      and now = 1700000000]
    migrate_idempotent [where fs = legacy_fs and now = 1700000000 and later = 1700000060]
  by (simp add: example_fs_def has_new_columns_header)

lemma dom_fold_upd:
  "dom (fold (\<lambda>(k, v) d. d(k \<mapsto> v)) ps d) = dom d \<union> fst ` set ps"
  by (induction ps arbitrary: d) auto

lemma dom_dict_row: "dom (dict_row h r) = set h"
proof -
  let ?vals = "map PyStr r @ replicate (length h - length r) PyNone"
  have "length h \<le> length ?vals" by simp
  then have "map fst (zip h ?vals) = h"
    by (simp add: map_fst_zip_take)
  then have "fst ` set (zip h ?vals) = set h"
    by (metis set_map)
  then show ?thesis
    by (simp add: dict_row_def dict_of_def dom_fold_upd)
qed

lemma getitem_dict_row:
  "k \<in> set h \<Longrightarrow> getitem (dict_row h r) k = Inr (the (dict_row h r k))"
  using dom_dict_row [of h r] by (auto simp add: getitem_def split: option.splits)

lemma migrated_record_new:
  "migrated_record
     (dict_of [(''id'', i), (''user_email'', u), (''name'', n), (''question'', q), (''answer'', a),
               (''image_question'', iq), (''image_answer'', ia), (''collection'', c),
               (''created_at'', t)]) =
   Inr [csv_str i, csv_str u, csv_str n, csv_str q, csv_str a, csv_str iq, csv_str ia, csv_str c,
        csv_str t]"
  by (simp add: migrated_record_def dict_of_def getitem_def)

lemma csv_str_simps:
  "csv_str (PyInt i) = str_int i" "csv_str (PyStr s) = s" "csv_str PyNone = []"
  by (simp_all add: csv_str_def)

lemma migrate_rows_enumerate:
  assumes "\<forall>row \<in> set rows. {''user_email'', ''question'', ''answer'', ''created_at''} \<subseteq> dom row"
  shows "\<exists>cards. migrate_rows (int n) rows = Inr cards
           \<and> write_rows migrated_record cards =
               (map (\<lambda>(i, row). str_int (int i) #
                       map (\<lambda>k. case row k of None \<Rightarrow> [] | Some v \<Rightarrow> csv_str v) (tl flashcards_header))
                  (enumerate n rows), None)"
  using assms
proof (induction rows arbitrary: n)
  case Nil
  then show ?case by simp
next
  case (Cons row rows)
  from Cons.prems obtain u q a t where
    vals: "row ''user_email'' = Some u" "row ''question'' = Some q"
          "row ''answer'' = Some a" "row ''created_at'' = Some t"
    by auto
  from Cons.prems have "\<forall>row \<in> set rows. {''user_email'', ''question'', ''answer'', ''created_at''} \<subseteq> dom row"
    by simp
  from Cons.IH [OF this, of "Suc n"] obtain cards where
    rest: "migrate_rows (int n + 1) rows = Inr cards"
      "write_rows migrated_record cards =
               (map (\<lambda>(i, row). str_int (int i) #
                       map (\<lambda>k. case row k of None \<Rightarrow> [] | Some v \<Rightarrow> csv_str v) (tl flashcards_header))
                  (enumerate (Suc n) rows), None)"
    by (auto simp add: add.commute)
  show ?case
    using vals rest
    by (simp add: getitem_def get_or_def migrated_record_new flashcards_header_def
        csv_str_simps split: option.splits)
qed


text \<open>
  Claim C2, as amended. For a legacy file whose header has the columns
  \<^verbatim>\<open>user_email\<close>, \<^verbatim>\<open>question\<close>, \<^verbatim>\<open>answer\<close> and \<^verbatim>\<open>created_at\<close> and whose first line
  lacks one of the four new column names, the migration succeeds. Afterwards the backup
  path holds the original content, and the flashcards file holds the current header of
  nine columns followed by one record per non-blank legacy row, in file order. The id of
  the record is the position of the row, counted from 1, whether the row had an id or
  not; each of the eight other columns holds the value the legacy row has for that
  column, and the empty string where the legacy row has none.
\<close>

theorem migrate_legacy_file:
  assumes "fs FLASHCARDS_CSV = Some (h # records)"
    and "\<not> has_new_columns (first_line (h # records))"
    and "{''user_email'', ''question'', ''answer'', ''created_at''} \<subseteq> set h"
  shows "migrate_flashcards_csv now fs =
           (Inr (),
            fs(backup_file now fs \<mapsto> h # records,
               FLASHCARDS_CSV \<mapsto>
                 flashcards_header #
                 map (\<lambda>(i, row). str_int (int i) #
                        map (\<lambda>k. case row k of None \<Rightarrow> [] | Some v \<Rightarrow> csv_str v)
                          (tl flashcards_header))
                   (enumerate 1 (DictReader (h # records)))))"
proof -
  have "\<forall>row \<in> set (DictReader (h # records)).
          {''user_email'', ''question'', ''answer'', ''created_at''} \<subseteq> dom row"
    using assms(3) by (auto simp add: DictReader_def dom_dict_row)
  from migrate_rows_enumerate [OF this, of 1] obtain cards where
    "migrate_rows 1 (DictReader (h # records)) = Inr cards"
    "write_rows migrated_record cards =
       (map (\<lambda>(i, row). str_int (int i) #
               map (\<lambda>k. case row k of None \<Rightarrow> [] | Some v \<Rightarrow> csv_str v) (tl flashcards_header))
          (enumerate 1 (DictReader (h # records))), None)"
    by auto
  then show ?thesis
    using assms(1,2) by (simp add: migrate_flashcards_csv_def Let_def)
qed


lemmas py_simps = csv_str_simps str_int_def digit_char_def lower_def lower_char_def
  getitem_def get_or_def py_lower_def dict_row_def dict_of_def DictReader_def
  first_line_def csv_line_def csv_field_def strip_def is_space_def has_new_columns_def
  flashcards_header_def FLASHCARDS_CSV_def backup_file_def

theorem migrate_legacy_file_witness:
  "legacy_fs FLASHCARDS_CSV = Some legacy_file
   \<and> \<not> has_new_columns (first_line legacy_file)
   \<and> ''user_email'' \<in> set (hd legacy_file) \<and> ''question'' \<in> set (hd legacy_file)
   \<and> ''answer'' \<in> set (hd legacy_file) \<and> ''created_at'' \<in> set (hd legacy_file)
   \<and> migrate_flashcards_csv 1700000000 legacy_fs =
       (Inr (),
        legacy_fs(''flashcards.csv.backup'' \<mapsto> legacy_file,
                  FLASHCARDS_CSV \<mapsto>
                    [flashcards_header,
                     [''1'', ''a@x.com'', [], ''2+2?'', ''4'', [], [], [], ''2023-01-01 10:00:00''],
                     [''2'', ''b@x.com'', [], ''2*3?'', ''6'', [], [], [], ''2023-01-02 10:00:00''],
                     [''3'', ''a@x.com'', [], ''r=1?'', ''pi'', [], [], [], ''2023-01-03 10:00:00'']]))"
  using migrate_legacy_file [of legacy_fs "hd legacy_file" "tl legacy_file" 1700000000]
  by (simp add: legacy_fs_def legacy_file_def csv_str_simps str_int_def digit_char_def
      dict_row_def dict_of_def DictReader_def
      first_line_def csv_line_def csv_field_def strip_def is_space_def has_new_columns_def
      flashcards_header_def FLASHCARDS_CSV_def backup_file_def)

text \<open>
  Claim C2 as stated fails on a legacy file that has ids: the card with id 3 comes out
  of the migration with id 2, so an id that was there is not carried over.
\<close>

theorem migrate_renumbers_counterexample:
  "snd (migrate_flashcards_csv 1700000000 legacy_fs_with_ids) FLASHCARDS_CSV =
     Some [flashcards_header,
           [''1'', ''a@x.com'', ''Sum'', ''2+2?'', ''4'', [], [], ''Math'', ''2023-01-01 10:00:00''],
           [''2'', ''a@x.com'', ''Area'', ''r=1?'', ''pi'', [], [], ''Geometry'', ''2023-01-03 10:00:00'']]
   \<and> legacy_file_with_ids ! 2 ! 0 = ''3''"
  by (simp add: migrate_flashcards_csv_def Let_def migrated_record_def legacy_fs_with_ids_def legacy_file_with_ids_def py_simps)

section \<open>The next id\<close>







section \<open>Registration\<close>



















end
